theory Spec2Isabelle
  imports Main "HOL-Library.Sublist"
begin

section \<open>Strings\<close>

text \<open>
  A JavaScript string is modelled as a \<^typ>\<open>string\<close>: one \<^typ>\<open>char\<close> per UTF-16 code
  unit, for the code units 0 to 255 (ASCII and Latin-1). The functions below are the
  string built-ins and regular-expression replacements that the source calls, each on
  this range.
\<close>

definition lower_alnum :: "char \<Rightarrow> bool" where
  \<comment> \<open>the character class \<open>[a-z0-9]\<close>\<close>
  "lower_alnum c = (c \<in> set ''abcdefghijklmnopqrstuvwxyz0123456789'')"

definition hyphen :: "char \<Rightarrow> bool" where
  "hyphen c = (c = CHR ''-'')"

definition name_char :: "char \<Rightarrow> bool" where
  \<comment> \<open>the character class \<open>[a-z0-9-]\<close>\<close>
  "name_char c = (lower_alnum c \<or> hyphen c)"

definition lower_char :: "char \<Rightarrow> char" where
  \<comment> \<open>\<open>A-Z\<close> and the Latin-1 capitals (U+00C0 to U+00DE without the
      multiplication sign U+00D7) move up by 32; every other code unit stays\<close>
  "lower_char c =
     (let n = (of_char c :: nat)
      in if (65 \<le> n \<and> n \<le> 90) \<or> (192 \<le> n \<and> n \<le> 222 \<and> n \<noteq> 215)
         then char_of (n + 32) else c)"

definition toLowerCase :: "string \<Rightarrow> string" where
  "toLowerCase s = map lower_char s"

definition replace_invalid :: "string \<Rightarrow> string" where
  \<comment> \<open>\<open>.replace(/[^a-z0-9-]/g, '-')\<close>\<close>
  "replace_invalid s = map (\<lambda>c. if name_char c then c else CHR ''-'') s"

fun collapse_hyphens :: "string \<Rightarrow> string" where
  \<comment> \<open>\<open>.replace(/-+/g, '-')\<close>: every maximal run of hyphens becomes one hyphen\<close>
  "collapse_hyphens (c # d # s) =
     (if hyphen c \<and> hyphen d then collapse_hyphens (d # s)
      else c # collapse_hyphens (d # s))"
| "collapse_hyphens s = s"

definition strip_trailing_hyphens :: "string \<Rightarrow> string" where
  \<comment> \<open>\<open>.replace(/-+$/g, '')\<close>\<close>
  "strip_trailing_hyphens s = rev (dropWhile hyphen (rev s))"

definition strip_hyphens :: "string \<Rightarrow> string" where
  \<comment> \<open>\<open>.replace(/^-+|-+$/g, '')\<close>\<close>
  "strip_hyphens s = strip_trailing_hyphens (dropWhile hyphen s)"

definition substring0 :: "nat \<Rightarrow> string \<Rightarrow> string" where
  \<comment> \<open>\<open>.substring(0, n)\<close>\<close>
  "substring0 n s = take n s"

definition whitespace :: "char \<Rightarrow> bool" where
  \<comment> \<open>the white space and line terminators that \<open>trim\<close> removes: tab, line feed,
      vertical tab, form feed, carriage return, space and the no-break space\<close>
  "whitespace c =
     (c \<in> set [CHR 0x09, CHR 0x0A, CHR 0x0B, CHR 0x0C, CHR 0x0D, CHR 0x20, CHR 0xA0])"

definition trim :: "string \<Rightarrow> string" where
  "trim s = rev (dropWhile whitespace (rev (dropWhile whitespace s)))"

definition startsWith :: "string \<Rightarrow> string \<Rightarrow> bool" where
  "startsWith s t = prefix t s"

definition endsWith :: "string \<Rightarrow> string \<Rightarrow> bool" where
  "endsWith s t = suffix t s"

definition includes_str :: "string \<Rightarrow> string \<Rightarrow> bool" where
  \<comment> \<open>\<open>s.includes(t)\<close>: \<open>t\<close> occurs in \<open>s\<close> as a contiguous substring\<close>
  "includes_str s t = sublist t s"

section \<open>The name of the deployed service\<close>

text \<open>\<open>sanitizeBranchName\<close> of the deploy command.\<close>

definition sanitizeBranchName :: "string \<Rightarrow> string" where
  "sanitizeBranchName branch =
     strip_trailing_hyphens
       (substring0 30
         (strip_hyphens (collapse_hyphens (replace_invalid (toLowerCase branch)))))"

text \<open>
  The options object that the command-line parser hands to a command. A flag that was
  not given is \<open>False\<close>, an option without a value is \<open>None\<close>.
\<close>

record options =
  production :: bool
  preview :: bool
  branch :: "string option"
  follow :: bool
  deployment :: "string option"
  yes :: bool

definition no_options :: options where
  "no_options =
     \<lparr>production = False, preview = False, branch = None, follow = False,
      deployment = None, yes = False\<rparr>"

definition getCurrentBranch :: "string option \<Rightarrow> string" where
  \<comment> \<open>the argument is what \<open>git rev-parse --abbrev-ref HEAD\<close> prints, \<open>None\<close> when
      the command fails\<close>
  "getCurrentBranch git = (case git of None \<Rightarrow> ''main'' | Some out \<Rightarrow> trim out)"

definition branchNameOf :: "options \<Rightarrow> string option \<Rightarrow> string" where
  \<comment> \<open>\<open>options.branch || getCurrentBranch()\<close>: an empty string is falsy\<close>
  "branchNameOf opts git =
     (case branch opts of
        None \<Rightarrow> getCurrentBranch git
      | Some b \<Rightarrow> if b = [] then getCurrentBranch git else b)"

text \<open>
  The part of \<open>deployCommand\<close> that fixes the service name and the deployment type.
  \<open>configured\<close> is \<open>serviceName\<close> as the project configuration holds it, \<open>nanoid8\<close> is
  what the identifier generator \<open>nanoid(8)\<close> returns; the generator belongs to a
  library and is a parameter here. It is asked only on the preview path.
\<close>

definition resolveService :: "options \<Rightarrow> string \<Rightarrow> string \<Rightarrow> string \<Rightarrow> string \<times> string" where
  "resolveService opts configured branchName nanoid8 =
     (let base = toLowerCase configured
      in if production opts then (base, ''production'')
         else if preview opts \<or> branchName \<noteq> ''main'' then
           (let sanitizedBranch = sanitizeBranchName branchName;
                uniqueId = toLowerCase nanoid8
            in (strip_hyphens
                  (collapse_hyphens (base @ ''-'' @ sanitizedBranch @ ''-'' @ uniqueId)),
                ''preview''))
         else (base, ''production''))"

text \<open>
  The naming rule of the platform, \<open>^[a-z0-9]([a-z0-9-]*[a-z0-9])?$\<close>: not empty, only
  characters of \<open>[a-z0-9-]\<close>, the first and the last of them alphanumeric.
\<close>

definition valid_service_name :: "string \<Rightarrow> bool" where
  "valid_service_name s =
     (s \<noteq> [] \<and> lower_alnum (hd s) \<and> lower_alnum (last s) \<and> list_all name_char s)"

fun consecutive_hyphens :: "string \<Rightarrow> bool" where
  "consecutive_hyphens (c # d # s) = ((hyphen c \<and> hyphen d) \<or> consecutive_hyphens (d # s))"
| "consecutive_hyphens s = False"

section \<open>The state store (\<open>lib/config.js\<close>)\<close>

text \<open>
  A file that a command reads is in one of three states: it does not exist; it exists
  but reading or parsing it raises an error with the given message; it is read and
  parsed, and \<open>Stored\<close> holds its text or, for a JSON document, what \<open>JSON.parse\<close>
  returns.
\<close>

datatype 'a stored_file = Missing | Corrupt string | Stored 'a

datatype error = Error string

text \<open>
  The project configuration as \<open>JSON.parse\<close> returns it. \<open>Stored None\<close> is a file that holds
  \<open>null\<close>; a field is \<open>None\<close> when the document has no string under that name, so that
  \<open>{}\<close> is the record of four absent fields (a number, a string or an array in place of
  the object reads like \<open>{}\<close>). A field that holds a value other than a string is
  outside the model.
\<close>

record config =
  projectId :: "string option"
  region :: "string option"
  serviceName :: "string option"
  artifactRegistry :: "string option"

definition shown :: "string option \<Rightarrow> string" where
  \<comment> \<open>a field inside a template literal: an absent field reads \<open>undefined\<close>\<close>
  "shown field = (case field of None \<Rightarrow> ''undefined'' | Some s \<Rightarrow> s)"

definition cannot_read :: "string \<Rightarrow> string \<Rightarrow> string" where
  \<comment> \<open>the message of the TypeError for a property read on \<open>null\<close> or \<open>undefined\<close>\<close>
  "cannot_read what property =
     ''Cannot read properties of '' @ what @ '' (reading '' @ [CHR 0x27] @ property
       @ [CHR 0x27] @ '')''"

text \<open>
  A record of the history. \<open>region\<close> is copied from the configuration and is absent when
  the configuration has none.
\<close>

record deployment =
  serviceName :: string
  type :: string
  branch :: string
  url :: string
  image :: string
  region :: "string option"
  timestamp :: string

record history =
  deployments :: "deployment list"

record global_config =
  lastUsedProject :: "string option"

text \<open>
  The directory of the global preferences: absent (and then \<open>mkdirSync\<close> either
  succeeds, \<open>None\<close>, or raises an error with the given message), or present with the
  preferences file in one of its states.
\<close>

datatype global_dir = NoDir "string option" | Dir "global_config stored_file"

definition readGlobalConfig :: "global_dir \<Rightarrow> error + global_config" where
  \<comment> \<open>\<open>ensureGlobalConfigDir\<close> runs outside the \<open>try\<close>: a failing \<open>mkdirSync\<close> raises\<close>
  "readGlobalConfig g =
     (case g of
        NoDir None \<Rightarrow> Inr \<lparr>lastUsedProject = None\<rparr>
      | NoDir (Some m) \<Rightarrow> Inl (Error m)
      | Dir Missing \<Rightarrow> Inr \<lparr>lastUsedProject = None\<rparr>
      | Dir (Corrupt m) \<Rightarrow> Inr \<lparr>lastUsedProject = None\<rparr>
      | Dir (Stored data) \<Rightarrow> Inr data)"

definition readProjectConfig :: "config option stored_file \<Rightarrow> error + config option" where
  \<comment> \<open>\<open>Inr None\<close> is \<open>null\<close>: returned for a missing file, and parsed from a file that
      holds \<open>null\<close>\<close>
  "readProjectConfig f =
     (case f of
        Missing \<Rightarrow> Inr None
      | Corrupt m \<Rightarrow> Inl (Error (''Error reading project config: '' @ m))
      | Stored data \<Rightarrow> Inr data)"

definition isProjectInitialized :: "config option stored_file \<Rightarrow> bool" where
  "isProjectInitialized f = (f \<noteq> Missing)"

definition readDeploymentHistory :: "history stored_file \<Rightarrow> history" where
  "readDeploymentHistory f =
     (case f of
        Missing \<Rightarrow> \<lparr>deployments = []\<rparr>
      | Corrupt m \<Rightarrow> \<lparr>deployments = []\<rparr>
      | Stored data \<Rightarrow> data)"

definition writeDeploymentHistory :: "bool \<Rightarrow> history \<Rightarrow> history stored_file \<Rightarrow> bool \<times> history stored_file" where
  \<comment> \<open>\<open>fs_ok\<close> tells whether \<open>writeFileSync\<close> succeeds; a write that raises is taken to
      leave the file as it was. The result pairs the returned flag with the file.\<close>
  "writeDeploymentHistory fs_ok h f = (if fs_ok then (True, Stored h) else (False, f))"

definition addDeployment :: "bool \<Rightarrow> string \<Rightarrow> deployment \<Rightarrow> history stored_file \<Rightarrow> history stored_file" where
  \<comment> \<open>\<open>now\<close> is \<open>new Date().toISOString()\<close>; it replaces any timestamp of the argument\<close>
  "addDeployment fs_ok now d f =
     (let h = readDeploymentHistory f;
          h' = h\<lparr>deployments := deployments h @ [d\<lparr>timestamp := now\<rparr>]\<rparr>
      in snd (writeDeploymentHistory fs_ok h' f))"

definition removeDeployment :: "bool \<Rightarrow> string \<Rightarrow> history stored_file \<Rightarrow> history stored_file" where
  "removeDeployment fs_ok name f =
     (let h = readDeploymentHistory f;
          h' = h\<lparr>deployments := filter (\<lambda>d. deployment.serviceName d \<noteq> name) (deployments h)\<rparr>
      in snd (writeDeploymentHistory fs_ok h' f))"

definition getDeployment :: "string \<Rightarrow> history stored_file \<Rightarrow> deployment option" where
  "getDeployment name f =
     find (\<lambda>d. deployment.serviceName d = name) (deployments (readDeploymentHistory f))"

text \<open>The service names of the records of a history file, in the order of the records.\<close>

definition names :: "history stored_file \<Rightarrow> string list" where
  "names f = map deployment.serviceName (deployments (readDeploymentHistory f))"





text \<open>A record with the given service name, for the concrete histories used below.\<close>

definition record_named :: "string \<Rightarrow> deployment" where
  "record_named name =
     \<lparr>deployment.serviceName = name, type = ''production'', branch = ''main'',
      url = ''https://app.run.app'', image = ''repo/app:1'', region = Some ''us-central1'',
      timestamp = ''''\<rparr>"

section \<open>The environment loader (\<open>parseEnvFile\<close> of the deploy command)\<close>

fun split_on :: "char \<Rightarrow> string \<Rightarrow> string list" where
  \<comment> \<open>\<open>s.split(c)\<close> for a separator of one character\<close>
  "split_on c [] = [[]]"
| "split_on c (x # xs) =
     (if x = c then [] # split_on c xs
      else (case split_on c xs of [] \<Rightarrow> [[x]] | p # ps \<Rightarrow> (x # p) # ps))"

fun join_with :: "string \<Rightarrow> string list \<Rightarrow> string" where
  \<comment> \<open>\<open>parts.join(sep)\<close>\<close>
  "join_with sep [] = []"
| "join_with sep [p] = p"
| "join_with sep (p # q # ps) = p @ sep @ join_with sep (q # ps)"

definition slice_1_m1 :: "string \<Rightarrow> string" where
  \<comment> \<open>\<open>.slice(1, -1)\<close>: without the first and the last character; empty for a string
      of fewer than two characters\<close>
  "slice_1_m1 s = butlast (tl s)"

definition double_quote :: char where
  "double_quote = CHR 0x22"

definition single_quote :: char where
  "single_quote = CHR 0x27"

definition assign :: "(string \<rightharpoonup> string) \<Rightarrow> string \<Rightarrow> string \<Rightarrow> (string \<rightharpoonup> string)" where
  \<comment> \<open>\<open>envVars[key] = value\<close> on an object created by \<open>{}\<close>; the map holds the own
      properties, which \<open>Object.keys\<close> and \<open>Object.entries\<close> list. Assigning a string to
      \<open>__proto__\<close> runs the inherited setter, which ignores it, and creates no property.\<close>
  "assign envVars key v = (if key = ''__proto__'' then envVars else envVars(key \<mapsto> v))"

definition env_line :: "(string \<rightharpoonup> string) \<Rightarrow> string \<Rightarrow> (string \<rightharpoonup> string)" where
  \<comment> \<open>the body of the \<open>forEach\<close> over the lines\<close>
  "env_line envVars line =
     (let trimmed = trim line
      in if trimmed \<noteq> [] \<and> \<not> startsWith trimmed ''#'' then
           (let parts = split_on CHR ''='' trimmed;
                key = hd parts;
                valueParts = tl parts
            in if key \<noteq> [] then
                 (let v = trim (join_with ''='' valueParts);
                      v' = (if (startsWith v [double_quote] \<and> endsWith v [double_quote])
                               \<or> (startsWith v [single_quote] \<and> endsWith v [single_quote])
                            then slice_1_m1 v else v)
                  in assign envVars (trim key) v')
               else envVars)
         else envVars)"

definition parseEnvFile :: "string stored_file \<Rightarrow> (string \<rightharpoonup> string)" where
  \<comment> \<open>a file that cannot be read is caught, with a warning, and gives the empty object\<close>
  "parseEnvFile f =
     (case f of
        Missing \<Rightarrow> Map.empty
      | Corrupt m \<Rightarrow> Map.empty
      | Stored envContent \<Rightarrow> foldl env_line Map.empty (split_on CHR 0x0A envContent))"

text \<open>
  The loader as the specification words it, to compare with \<open>parseEnvFile\<close>. A line is
  skipped if it is empty after trimming or starts with \<open>#\<close>; otherwise the key is the
  trimmed text before the first \<open>=\<close> and the value the trimmed text after it, without
  one wrapping pair of matching quotes; of two lines with the same key the later wins.
  \<open>skipped\<close> lists keys whose lines give no entry: none in the specification. \<open>lone\<close>
  tells what becomes of a value that is one quote character alone: in the
  specification such a value has no pair around it and stays, \<open>lone = (\<lambda>v. v)\<close>.
\<close>

definition spec_unquote :: "(string \<Rightarrow> string) \<Rightarrow> string \<Rightarrow> string" where
  "spec_unquote lone v =
     (if v = [double_quote] \<or> v = [single_quote] then lone v
      else if 2 \<le> length v \<and> hd v = last v \<and> (hd v = double_quote \<or> hd v = single_quote)
      then butlast (tl v) else v)"

definition spec_value :: "string \<Rightarrow> string" where
  \<comment> \<open>the trimmed text after the first \<open>=\<close> of a trimmed line\<close>
  "spec_value t = trim (drop 1 (dropWhile (\<lambda>c. c \<noteq> CHR ''='') t))"

definition spec_entry :: "(string \<Rightarrow> string) \<Rightarrow> string list \<Rightarrow> string \<Rightarrow> (string \<times> string) option" where
  "spec_entry lone skipped line =
     (let t = trim line
      in if t = [] \<or> hd t = CHR ''#'' then None
         else (let key = trim (takeWhile (\<lambda>c. c \<noteq> CHR ''='') t)
               in if key \<in> set skipped then None
                  else Some (key, spec_unquote lone (spec_value t))))"

definition spec_parse :: "(string \<Rightarrow> string) \<Rightarrow> string list \<Rightarrow> string \<Rightarrow> (string \<rightharpoonup> string)" where
  "spec_parse lone skipped envContent =
     map_of (rev (List.map_filter (spec_entry lone skipped) (split_on CHR 0x0A envContent)))"

section \<open>The surroundings of a command\<close>

text \<open>
  Everything a command reads from outside the program is a field of \<open>world\<close>; the calls
  that a command makes to the outside are recorded, in order, as values of \<open>call\<close>.
  \<open>exec\<close> answers a call made through \<open>execSync\<close> with the text the command prints or
  with the error that \<open>execSync\<close> raises (its message and its \<open>stderr\<close>); \<open>rpc\<close> answers
  a call of the Cloud Run client with \<open>None\<close> or with the error raised (its status code
  and its message).

  \<open>history_file\<close> is the history file when it is missing, unreadable or holds an object
  with a \<open>deployments\<close> array. \<open>history_without_array\<close> tells that the file holds a JSON
  object with no \<open>deployments\<close> in it, such as \<open>{}\<close>: then \<open>history_file\<close> is not looked
  at, every call of a method on the \<open>deployments\<close> of what was read raises a TypeError,
  and no command gets as far as writing the file.
\<close>

datatype exec_error = ExecError string string

fun exec_message :: "exec_error \<Rightarrow> string" where
  "exec_message (ExecError m e) = m"

fun exec_stderr :: "exec_error \<Rightarrow> string" where
  "exec_stderr (ExecError m e) = e"

datatype rpc_error = RpcError nat string

fun rpc_code :: "rpc_error \<Rightarrow> nat" where
  "rpc_code (RpcError c m) = c"

fun rpc_message :: "rpc_error \<Rightarrow> string" where
  "rpc_message (RpcError c m) = m"

datatype call =
    GitRevParse
  | DockerInfo
  | GcloudAuthList
  | GcloudConfigureDocker string
  | DockerBuild string
  | DockerTag string string
  | DockerPush string
  | GcloudRunDeploy string string string string "string \<rightharpoonup> string"
  | GcloudDescribe string string string
  | GcloudServicesList string string
  | ConfirmPrompt
  | GetService string
  | DeleteService string
  | GetEntries string

fun pipeline_step :: "call \<Rightarrow> bool" where
  \<comment> \<open>the calls that build, tag, push or deploy\<close>
  "pipeline_step (DockerBuild t) = True"
| "pipeline_step (DockerTag s t) = True"
| "pipeline_step (DockerPush t) = True"
| "pipeline_step (GcloudRunDeploy n i r p e) = True"
| "pipeline_step c = False"

record service =
  svc_name :: string
  svc_url :: string

record log_entry =
  entry_timestamp :: nat
  entry_message :: string

record world =
  config_file :: "config option stored_file"
  history_file :: "history stored_file"
  history_without_array :: bool
  env_file :: "string stored_file"
  can_write :: bool
  exec :: "call \<Rightarrow> exec_error + string"
  rpc :: "call \<Rightarrow> rpc_error option"
  nanoid_result :: string
  date_now :: string
  iso_now :: string
  confirmed :: bool
  parse_services :: "string \<Rightarrow> string + service list"
  recent_entries :: "string + log_entry list"

text \<open>
  What a command leaves behind: how its handler ended, the calls it made, the lines it
  printed that tell the outcome (decoration and progress lines are left out), and the
  history file.
\<close>

datatype outcome = Returned | Threw error | Exited nat

record result =
  outcome :: outcome
  calls :: "call list"
  printed :: "string list"
  history :: "history stored_file"

text \<open>
  The action wrappers of \<open>index.js\<close>: an error that leaves the handler is printed and the
  process exits with status 1; a handler that returns lets the process end with status 0.
\<close>

definition exit_status :: "result \<Rightarrow> nat" where
  "exit_status r = (case outcome r of Returned \<Rightarrow> 0 | Threw e \<Rightarrow> 1 | Exited n \<Rightarrow> n)"

definition not_initialized :: "world \<Rightarrow> result" where
  "not_initialized w =
     \<lparr>outcome = Returned, calls = [], printed = [''Error: Project not initialized.''],
      history = history_file w\<rparr>"

definition throws :: "world \<Rightarrow> error \<Rightarrow> result" where
  "throws w e = \<lparr>outcome = Threw e, calls = [], printed = [], history = history_file w\<rparr>"

section \<open>The deploy command\<close>

definition preflight :: "world \<Rightarrow> config \<Rightarrow> call list \<times> string list option" where
  \<comment> \<open>the pre-flight checks of \<open>deployCommand\<close>: the calls made and, when a check fails,
      the lines printed before the handler returns. \<open>checkDockerRunning\<close> and
      \<open>checkGcloudAuth\<close> of the client fail when their command fails and look at nothing
      that it prints.\<close>
  "preflight w config =
     (case exec w DockerInfo of
        Inl e \<Rightarrow>
          ([DockerInfo],
           Some [''Pre-flight checks failed'', ''Error: Docker is not running.'',
                 ''Please start Docker and try again.''])
      | Inr out \<Rightarrow>
          (case exec w GcloudAuthList of
             Inl e \<Rightarrow>
               ([DockerInfo, GcloudAuthList],
                Some [''Pre-flight checks failed'', ''Error: gcloud CLI is not authenticated.'',
                      ''Run gcloud auth login to authenticate.''])
           | Inr out \<Rightarrow>
               (case exec w (GcloudConfigureDocker (shown (config.region config))) of
                  Inl e \<Rightarrow>
                    ([DockerInfo, GcloudAuthList,
                      GcloudConfigureDocker (shown (config.region config))],
                     Some [''Pre-flight checks failed'',
                           ''Error: Failed to configure Docker authentication: ''
                             @ exec_message e])
                | Inr out \<Rightarrow>
                    ([DockerInfo, GcloudAuthList,
                      GcloudConfigureDocker (shown (config.region config))],
                     None))))"

definition deploy_failure :: "exec_error \<Rightarrow> string list" where
  \<comment> \<open>the \<open>catch\<close> block around the deploy step\<close>
  "deploy_failure e =
     [''Deployment failed'',
      ''Error: '' @ (if exec_stderr e \<noteq> [] then exec_stderr e else exec_message e)]
     @ (if includes_str (exec_message e) ''403''
        then [''Make sure you have the necessary permissions:'']
        else if includes_str (exec_message e) ''404''
        then [''Make sure the following APIs are enabled:'']
        else [])"

definition failure_lines :: "string \<Rightarrow> exec_error + string \<Rightarrow> string list" where
  \<comment> \<open>what a helper prints when its command fails and the pipeline goes on\<close>
  "failure_lines headline r = (case r of Inl e \<Rightarrow> [headline, exec_message e] | Inr out \<Rightarrow> [])"

definition deploy_image :: "world \<Rightarrow> config \<Rightarrow> string \<Rightarrow> string \<Rightarrow> string \<Rightarrow> result" where
  \<comment> \<open>\<open>deployCommand\<close> after the pre-flight checks: build, tag, push, deploy, record;
      \<open>name\<close> is the \<open>serviceName\<close> of the source. \<open>addDeployment\<close> runs inside the \<open>try\<close>:
      its TypeError on a history without array is caught like a failed deploy.\<close>
  "deploy_image w config name deploymentType branchName =
     (let envVars = parseEnvFile (env_file w);
          imageTag = shown (artifactRegistry config) @ ''/'' @ name @ '':'' @ date_now w;
          imageLatest = shown (artifactRegistry config) @ ''/'' @ name @ '':latest'';
          build = DockerBuild imageTag;
          tag = DockerTag imageTag imageLatest;
          push = DockerPush imageTag;
          pushLatest = DockerPush imageLatest;
          deploy = GcloudRunDeploy name imageTag (shown (config.region config))
                     (shown (projectId config)) envVars;
          describe = GcloudDescribe name (shown (config.region config))
                       (shown (projectId config))
      in case exec w build of
           Inl e \<Rightarrow>
             \<lparr>outcome = Returned, calls = [build],
              printed = [''Docker build failed'', exec_message e, ''Deployment failed.''],
              history = history_file w\<rparr>
         | Inr out \<Rightarrow>
             (let tagLines = (case exec w tag of
                                Inl e \<Rightarrow> [''Failed to tag image: '' @ exec_message e]
                              | Inr out \<Rightarrow> [])
              in case exec w push of
                   Inl e \<Rightarrow>
                     \<lparr>outcome = Returned, calls = [build, tag, push],
                      printed = tagLines
                        @ [''Docker push failed'', exec_message e, ''Deployment failed.''],
                      history = history_file w\<rparr>
                 | Inr out \<Rightarrow>
                     (let latestLines = failure_lines ''Docker push failed'' (exec w pushLatest)
                      in case exec w deploy of
                           Inl e \<Rightarrow>
                             \<lparr>outcome = Returned,
                              calls = [build, tag, push, pushLatest, deploy],
                              printed = tagLines @ latestLines @ deploy_failure e,
                              history = history_file w\<rparr>
                         | Inr out \<Rightarrow>
                             (case exec w describe of
                                Inl e \<Rightarrow>
                                  \<lparr>outcome = Returned,
                                   calls = [build, tag, push, pushLatest, deploy, describe],
                                   printed = tagLines @ latestLines @ deploy_failure e,
                                   history = history_file w\<rparr>
                              | Inr serviceUrl \<Rightarrow>
                                  if history_without_array w then
                                    \<lparr>outcome = Returned,
                                     calls = [build, tag, push, pushLatest, deploy, describe],
                                     printed = tagLines @ latestLines
                                       @ deploy_failure
                                           (ExecError (cannot_read ''undefined'' ''push'') []),
                                     history = history_file w\<rparr>
                                  else
                                    \<lparr>outcome = Returned,
                                     calls = [build, tag, push, pushLatest, deploy, describe],
                                     printed = tagLines @ latestLines
                                       @ [''Deployment successful!'', trim serviceUrl],
                                     history =
                                       addDeployment (can_write w) (iso_now w)
                                         \<lparr>deployment.serviceName = name,
                                          type = deploymentType, branch = branchName,
                                          url = trim serviceUrl, image = imageTag,
                                          region = config.region config, timestamp = ''''\<rparr>
                                         (history_file w)\<rparr>))))"

definition deployCommand :: "world \<Rightarrow> options \<Rightarrow> result" where
  \<comment> \<open>\<open>config.serviceName.toLowerCase()\<close> comes first and outside any \<open>try\<close>: on \<open>null\<close>
      and on a configuration without \<open>serviceName\<close> its TypeError leaves the handler\<close>
  "deployCommand w opts =
     (if \<not> isProjectInitialized (config_file w) then not_initialized w
      else case readProjectConfig (config_file w) of
             Inl e \<Rightarrow> throws w e
           | Inr None \<Rightarrow> throws w (Error (cannot_read ''null'' ''serviceName''))
           | Inr (Some config) \<Rightarrow>
               (case config.serviceName config of
                  None \<Rightarrow> throws w (Error (cannot_read ''undefined'' ''toLowerCase''))
                | Some configured \<Rightarrow>
                    (let asked = (if options.branch opts = None \<or> options.branch opts = Some []
                                  then [GitRevParse] else []);
                         branchName = branchNameOf opts
                           (case exec w GitRevParse of Inl e \<Rightarrow> None | Inr out \<Rightarrow> Some out);
                         target = resolveService opts configured branchName (nanoid_result w);
                         checks = preflight w config
                     in case snd checks of
                          Some lines \<Rightarrow>
                            \<lparr>outcome = Returned, calls = asked @ fst checks, printed = lines,
                             history = history_file w\<rparr>
                        | None \<Rightarrow>
                            (let r = deploy_image w config (fst target) (snd target) branchName
                             in r\<lparr>calls := asked @ fst checks @ calls r\<rparr>))))"

section \<open>The remove command\<close>

definition remove_failure :: "world \<Rightarrow> string \<Rightarrow> call list \<Rightarrow> string list \<Rightarrow> string \<Rightarrow> result" where
  \<comment> \<open>the \<open>catch\<close> block of \<open>removeCommand\<close>; \<open>msg\<close> is the message of the error caught\<close>
  "remove_failure w deploymentName made lines msg =
     (if includes_str msg ''403'' then
        \<lparr>outcome = Returned, calls = made,
         printed = lines @ [''Failed to delete deployment'', ''Error: '' @ msg,
                            ''Make sure you have the necessary permissions:''],
         history = history_file w\<rparr>
      else if includes_str msg ''404'' then
        \<lparr>outcome = Returned, calls = made,
         printed = lines @ [''Failed to delete deployment'', ''Error: '' @ msg,
                            ''The service may have already been deleted.'',
                            ''Removed from local deployment history.''],
         history = removeDeployment (can_write w) deploymentName (history_file w)\<rparr>
      else
        \<lparr>outcome = Returned, calls = made,
         printed = lines @ [''Failed to delete deployment'', ''Error: '' @ msg],
         history = history_file w\<rparr>)"

definition removeCommand :: "world \<Rightarrow> string \<Rightarrow> options \<Rightarrow> result" where
  \<comment> \<open>\<open>getService\<close> of the client returns \<open>null\<close> for an error of code 5 (NOT_FOUND) and
      raises \<open>Failed to get service: ...\<close> for any other; \<open>deleteService\<close> raises
      \<open>Failed to delete service: ...\<close> for every error. The comparison with
      \<open>config.serviceName\<close> and \<open>getDeployment\<close> come before the \<open>try\<close>: their TypeError, on
      a \<open>null\<close> configuration and on a history without array, leaves the handler.\<close>
  "removeCommand w deploymentName opts =
     (if \<not> isProjectInitialized (config_file w) then not_initialized w
      else if deploymentName = [] then
        \<lparr>outcome = Returned, calls = [], printed = [''Error: Deployment name is required.''],
         history = history_file w\<rparr>
      else case readProjectConfig (config_file w) of
             Inl e \<Rightarrow> throws w e
           | Inr None \<Rightarrow> throws w (Error (cannot_read ''null'' ''serviceName''))
           | Inr (Some config) \<Rightarrow>
               (let warning =
                      (if Some deploymentName = config.serviceName config
                       then [''Warning: This is the production deployment!''] else [])
                in if history_without_array w then
                     \<lparr>outcome = Threw (Error (cannot_read ''undefined'' ''find'')), calls = [],
                      printed = warning, history = history_file w\<rparr>
                   else
                     (let lines =
                            warning
                            @ (case getDeployment deploymentName (history_file w) of
                                 None \<Rightarrow> [''Note: Deployment not found in local history, but may exist in Cloud Run.'']
                               | Some d \<Rightarrow> []);
                          asked = (if yes opts then [] else [ConfirmPrompt]);
                          get = GetService deploymentName;
                          delete = DeleteService deploymentName
                      in if \<not> yes opts \<and> \<not> confirmed w then
                           \<lparr>outcome = Returned, calls = asked,
                            printed = lines @ [''Deletion cancelled.''],
                            history = history_file w\<rparr>
                         else
                           (case rpc w get of
                              Some e \<Rightarrow>
                                if rpc_code e = 5 then
                                  \<lparr>outcome = Returned, calls = asked @ [get],
                                   printed = lines @ [''Service not found in Cloud Run'',
                                                      ''Removed from local deployment history.''],
                                   history = removeDeployment (can_write w) deploymentName
                                               (history_file w)\<rparr>
                                else remove_failure w deploymentName (asked @ [get]) lines
                                       (''Failed to get service: '' @ rpc_message e)
                            | None \<Rightarrow>
                                (case rpc w delete of
                                   None \<Rightarrow>
                                     \<lparr>outcome = Returned, calls = asked @ [get, delete],
                                      printed = lines @ [''Cloud Run service deleted'',
                                                         ''Deployment removed successfully!''],
                                      history = removeDeployment (can_write w) deploymentName
                                                  (history_file w)\<rparr>
                                 | Some e \<Rightarrow>
                                     remove_failure w deploymentName (asked @ [get, delete]) lines
                                       (''Failed to delete service: '' @ rpc_message e))))))"

section \<open>The list command\<close>

definition list_failure :: "world \<Rightarrow> call list \<Rightarrow> string \<Rightarrow> result" where
  \<comment> \<open>the \<open>catch\<close> block of \<open>listCommand\<close>\<close>
  "list_failure w made msg =
     \<lparr>outcome = Returned, calls = made,
      printed = [''Failed to fetch deployments'', ''Error: '' @ msg]
        @ (if includes_str msg ''403'' then [''Make sure you have the necessary permissions:'']
           else if includes_str msg ''404'' then [''Make sure the Cloud Run API is enabled:'']
           else []),
      history = history_file w\<rparr>"

definition listed_type :: "history \<Rightarrow> config \<Rightarrow> string \<Rightarrow> string" where
  \<comment> \<open>\<open>historyEntry?.type || (serviceName === config.serviceName ? 'production' : 'preview')\<close>\<close>
  "listed_type h config name =
     (let fallback = (if Some name = config.serviceName config
                      then ''production'' else ''preview'')
      in case find (\<lambda>d. deployment.serviceName d = name) (deployments h) of
           None \<Rightarrow> fallback
         | Some d \<Rightarrow> if type d \<noteq> [] then type d else fallback)"

definition listCommand :: "world \<Rightarrow> options \<Rightarrow> result" where
  \<comment> \<open>\<open>parse_services\<close> stands for \<open>JSON.parse\<close> on what \<open>gcloud run services list\<close> prints:
      the services, or the message of the error raised. Every use of the configuration
      and of the history is inside the \<open>try\<close>; the history is used once a service is
      relevant.\<close>
  "listCommand w opts =
     (if \<not> isProjectInitialized (config_file w) then not_initialized w
      else case readProjectConfig (config_file w) of
             Inl e \<Rightarrow> throws w e
           | Inr None \<Rightarrow> list_failure w [] (cannot_read ''null'' ''region'')
           | Inr (Some config) \<Rightarrow>
               (let list = GcloudServicesList (shown (config.region config))
                             (shown (projectId config))
                in case exec w list of
                     Inl e \<Rightarrow> list_failure w [list] (exec_message e)
                   | Inr servicesOutput \<Rightarrow>
                       (case parse_services w servicesOutput of
                          Inl msg \<Rightarrow> list_failure w [list] msg
                        | Inr allServices \<Rightarrow>
                            (let h = readDeploymentHistory (history_file w);
                                 relevantServices =
                                   filter (\<lambda>s. Some (svc_name s) = config.serviceName config
                                        \<or> startsWith (svc_name s)
                                             (shown (config.serviceName config) @ ''-''))
                                     allServices;
                                 productionDeployments =
                                   filter (\<lambda>s. listed_type h config (svc_name s) = ''production'')
                                     relevantServices;
                                 previewDeployments =
                                   filter (\<lambda>s. listed_type h config (svc_name s) \<noteq> ''production'')
                                     relevantServices;
                                 showProduction =
                                   (production opts \<or> (\<not> production opts \<and> \<not> preview opts));
                                 showPreview =
                                   (preview opts \<or> (\<not> production opts \<and> \<not> preview opts))
                             in if relevantServices = [] then
                                  \<lparr>outcome = Returned, calls = [list],
                                   printed = [''No deployments found.''],
                                   history = history_file w\<rparr>
                                else if history_without_array w then
                                  list_failure w [list] (cannot_read ''undefined'' ''find'')
                                else
                                  \<lparr>outcome = Returned, calls = [list],
                                   printed =
                                     (if showProduction \<and> productionDeployments \<noteq> []
                                      then ''Production Deployments:''
                                           # map (\<lambda>s. ''  '' @ svc_name s) productionDeployments
                                      else [])
                                     @ (if showPreview \<and> previewDeployments \<noteq> []
                                        then ''Preview Deployments:''
                                             # map (\<lambda>s. ''  '' @ svc_name s) previewDeployments
                                        else []),
                                   history = history_file w\<rparr>))))"

section \<open>The logs command and the log stream\<close>

text \<open>
  \<open>streamLogs\<close> in follow mode. The timer calls \<open>poll\<close> every \<open>pollInterval\<close> milliseconds;
  a tick is what the log service answers at that moment to the query
  \<open>timestamp>="lastTimestamp"\<close>, \<open>orderBy: 'timestamp asc'\<close>, as a function of the bound:
  the entries, or the message of the error raised. Time stamps are in milliseconds.
  The polls are taken one after the other, each answer arriving before the next tick;
  the timer does not wait for an answer, and runs in which a slow answer overlaps the
  next poll are not modelled.
\<close>

definition pollInterval :: nat where
  "pollInterval = 2000"

record poll_state =
  lastTimestamp :: nat
  delivered :: "log_entry list"

definition poll :: "poll_state \<Rightarrow> (nat \<Rightarrow> string + log_entry list) \<Rightarrow> poll_state" where
  \<comment> \<open>\<open>delivered\<close> collects the entries handed to the callback, in order\<close>
  "poll st getEntries =
     (case getEntries (lastTimestamp st) of
        Inl msg \<Rightarrow> st
      | Inr entries \<Rightarrow>
          if entries \<noteq> [] then
            \<lparr>lastTimestamp = entry_timestamp (last entries),
             delivered = delivered st @ entries\<rparr>
          else st)"

definition follow_logs :: "nat \<Rightarrow> (nat \<Rightarrow> string + log_entry list) list \<Rightarrow> poll_state" where
  \<comment> \<open>\<open>start\<close> is the time at which \<open>streamLogs\<close> is called\<close>
  "follow_logs start ticks = foldl poll \<lparr>lastTimestamp = start, delivered = []\<rparr> ticks"

definition entries_since :: "log_entry list \<Rightarrow> nat \<Rightarrow> string + log_entry list" where
  \<comment> \<open>a log service that holds the entries \<open>log\<close>: its answer to the query of \<open>poll\<close>\<close>
  "entries_since log bound =
     Inr (filter (\<lambda>e. bound \<le> entry_timestamp e) (sort_key entry_timestamp log))"

definition logs_failure :: "world \<Rightarrow> call list \<Rightarrow> string \<Rightarrow> result" where
  \<comment> \<open>the \<open>catch\<close> block of \<open>logsCommand\<close>\<close>
  "logs_failure w made msg =
     \<lparr>outcome = Returned, calls = made,
      printed = [''Failed to fetch logs'', ''Error: '' @ msg]
        @ (if includes_str msg ''403'' then [''Make sure you have the necessary permissions:'']
           else if includes_str msg ''404''
           then [''Make sure the Cloud Logging API is enabled:'']
           else []),
      history = history_file w\<rparr>"

definition logsCommand :: "world \<Rightarrow> options \<Rightarrow> result" where
  \<comment> \<open>\<open>recent_entries\<close> is the answer to the one-time query, newest entry first. In follow
      mode the handler never returns: the polls go on until the interrupt signal, whose
      handler stops the timer and exits with status 0. Reading \<open>config.serviceName\<close> (when
      no deployment is named) and \<open>getDeployment\<close> come before the \<open>try\<close>; the client is
      made from the configuration inside it.\<close>
  "logsCommand w opts =
     (if \<not> isProjectInitialized (config_file w) then not_initialized w
      else case readProjectConfig (config_file w) of
             Inl e \<Rightarrow> throws w e
           | Inr config \<Rightarrow>
               (let given = (case options.deployment opts of
                               None \<Rightarrow> False | Some d \<Rightarrow> d \<noteq> [])
                in if \<not> given \<and> config = None then
                     throws w (Error (cannot_read ''null'' ''serviceName''))
                   else
                     (let name = (if given then options.deployment opts
                                  else (case config of
                                          None \<Rightarrow> None | Some c \<Rightarrow> config.serviceName c))
                      in if history_without_array w then
                           throws w (Error (cannot_read ''undefined'' ''find''))
                         else if (case name of
                                    None \<Rightarrow> None
                                  | Some n \<Rightarrow> getDeployment n (history_file w)) = None
                                 \<and> \<not> given then
                           \<lparr>outcome = Returned, calls = [],
                            printed = [''No production deployment found.''],
                            history = history_file w\<rparr>
                         else
                           (case config of
                              None \<Rightarrow> logs_failure w [] (cannot_read ''null'' ''projectId'')
                            | Some c \<Rightarrow>
                                if follow opts then
                                  \<lparr>outcome = Exited 0, calls = [],
                                   printed = [''Connected to Cloud Logging'',
                                              ''Stopping log stream...''],
                                   history = history_file w\<rparr>
                                else
                                  (case recent_entries w of
                                     Inl msg \<Rightarrow>
                                       logs_failure w [GetEntries (shown name)]
                                         (''Failed to stream logs: '' @ msg)
                                   | Inr entries \<Rightarrow>
                                       \<lparr>outcome = Returned, calls = [GetEntries (shown name)],
                                        printed = map entry_message (rev entries)
                                                    @ [''Logs fetched''],
                                        history = history_file w\<rparr>)))))"

section \<open>Concrete surroundings\<close>

text \<open>
  A project initialised as \<open>app\<close>, with a history of one production record and one preview
  record, in which every call to the outside succeeds. The worlds after it differ from
  it in one answer each.
\<close>

definition sample_config :: config where
  "sample_config =
     \<lparr>projectId = Some ''my-project'', config.region = Some ''us-central1'',
      config.serviceName = Some ''app'',
      artifactRegistry =
        Some ''us-central1-docker.pkg.dev/my-project/cloud-run-source-deploy''\<rparr>"

definition healthy_exec :: "call \<Rightarrow> exec_error + string" where
  "healthy_exec c =
     (case c of
        GitRevParse \<Rightarrow> Inr (''main'' @ [CHR 0x0A])
      | GcloudAuthList \<Rightarrow> Inr (''dev@example.com'' @ [CHR 0x0A])
      | GcloudDescribe n r p \<Rightarrow> Inr (''https://'' @ n @ ''-uc.a.run.app'' @ [CHR 0x0A])
      | _ \<Rightarrow> Inr [])"

definition healthy_world :: world where
  "healthy_world =
     \<lparr>config_file = Stored (Some sample_config),
      history_file =
        Stored \<lparr>deployments = [record_named ''app'', record_named ''app-404-page-k3x9q2ab'']\<rparr>,
      history_without_array = False,
      env_file = Missing,
      can_write = True,
      exec = healthy_exec,
      rpc = (\<lambda>c. None),
      nanoid_result = ''Ab_cdEfg'',
      date_now = ''1700000000000'',
      iso_now = ''2023-11-14T22:13:20.000Z'',
      confirmed = False,
      parse_services = (\<lambda>out. Inr []),
      recent_entries = Inr []\<rparr>"

definition command_failed :: "string \<Rightarrow> exec_error + string" where
  "command_failed cmd = Inl (ExecError (''Command failed: '' @ cmd) [])"

definition docker_down :: world where
  "docker_down =
     healthy_world
       \<lparr>exec := (\<lambda>c. case c of DockerInfo \<Rightarrow> command_failed ''docker info''
                        | _ \<Rightarrow> healthy_exec c)\<rparr>"

definition not_authenticated :: world where
  \<comment> \<open>no account is active: \<open>gcloud auth list\<close> succeeds and prints nothing\<close>
  "not_authenticated =
     healthy_world
       \<lparr>exec := (\<lambda>c. case c of GcloudAuthList \<Rightarrow> Inr []
                        | _ \<Rightarrow> healthy_exec c)\<rparr>"

definition build_fails :: world where
  "build_fails =
     healthy_world
       \<lparr>exec := (\<lambda>c. case c of DockerBuild t \<Rightarrow> command_failed ''docker build''
                        | _ \<Rightarrow> healthy_exec c)\<rparr>"

definition push_fails :: world where
  "push_fails =
     healthy_world
       \<lparr>exec := (\<lambda>c. case c of DockerPush t \<Rightarrow> command_failed ''docker push''
                        | _ \<Rightarrow> healthy_exec c)\<rparr>"

definition deploy_fails :: world where
  "deploy_fails =
     healthy_world
       \<lparr>exec := (\<lambda>c. case c of
                    GcloudRunDeploy n i r p e \<Rightarrow> command_failed ''gcloud run deploy''
                  | _ \<Rightarrow> healthy_exec c)\<rparr>"

definition listing_fails :: world where
  "listing_fails =
     healthy_world
       \<lparr>exec := (\<lambda>c. case c of
                    GcloudServicesList r p \<Rightarrow> command_failed ''gcloud run services list''
                  | _ \<Rightarrow> healthy_exec c)\<rparr>"

definition logs_fail :: world where
  "logs_fail = healthy_world\<lparr>recent_entries := Inl ''7 PERMISSION_DENIED''\<rparr>"

definition delete_denied :: world where
  \<comment> \<open>the service exists; deleting it is refused, and the message names the service\<close>
  "delete_denied =
     healthy_world
       \<lparr>rpc := (\<lambda>c. case c of
                   DeleteService n \<Rightarrow>
                     Some (RpcError 7 (''7 PERMISSION_DENIED: Permission denied on resource ''
                                        @ n))
                 | _ \<Rightarrow> None)\<rparr>"

definition deleted_meanwhile :: world where
  \<comment> \<open>the service exists when it is looked up and is gone when it is deleted\<close>
  "deleted_meanwhile =
     healthy_world
       \<lparr>rpc := (\<lambda>c. case c of
                   DeleteService n \<Rightarrow> Some (RpcError 5 (''5 NOT_FOUND: Service not found''))
                 | _ \<Rightarrow> None)\<rparr>"

definition yes_options :: options where
  "yes_options = no_options\<lparr>yes := True\<rparr>"

definition started_entry :: log_entry where
  "started_entry = \<lparr>entry_timestamp = 5000, entry_message = ''Server started''\<rparr>"

section \<open>Properties of the state store\<close>

lemma readDeploymentHistory_simps [simp]:
  "readDeploymentHistory Missing = \<lparr>deployments = []\<rparr>"
  "readDeploymentHistory (Corrupt m) = \<lparr>deployments = []\<rparr>"
  "readDeploymentHistory (Stored h) = h"
  by (simp_all add: readDeploymentHistory_def)











text \<open>
  C10: a project configuration file that exists but cannot be parsed makes
  \<open>readProjectConfig\<close> raise (it returns neither \<open>null\<close> nor a default); an unparseable
  history file or global preferences file is read as the empty default.
\<close>

theorem unparseable_reads:
  "readProjectConfig (Corrupt m) = Inl (Error (''Error reading project config: '' @ m))
   \<and> readProjectConfig (Corrupt m) \<noteq> Inr None
   \<and> readDeploymentHistory (Corrupt m) = \<lparr>deployments = []\<rparr>
   \<and> readGlobalConfig (Dir (Corrupt m)) = Inr \<lparr>lastUsedProject = None\<rparr>"
  by (simp add: readProjectConfig_def readGlobalConfig_def)

section \<open>Properties of the service name\<close>

lemma collapse_hyphens_Cons: "\<exists>t. collapse_hyphens (c # s) = c # t"
  by (induction "c # s" arbitrary: c s rule: collapse_hyphens.induct) (auto simp: hyphen_def)

lemma set_collapse_hyphens: "set (collapse_hyphens s) = set s"
  by (induction s rule: collapse_hyphens.induct) (auto simp: hyphen_def)

lemma no_consecutive_collapse: "\<not> consecutive_hyphens (collapse_hyphens s)"
proof (induction s rule: collapse_hyphens.induct)
  case (1 c d s)
  obtain t where t: "collapse_hyphens (d # s) = d # t"
    using collapse_hyphens_Cons by blast
  with 1 show ?case by auto
qed simp_all

lemma filter_collapse_hyphens:
  "filter (\<lambda>c. \<not> hyphen c) (collapse_hyphens s) = filter (\<lambda>c. \<not> hyphen c) s"
  by (induction s rule: collapse_hyphens.induct) auto

lemma consecutive_hyphens_appendI1: "consecutive_hyphens xs \<Longrightarrow> consecutive_hyphens (xs @ ys)"
  by (induction xs rule: consecutive_hyphens.induct) auto

lemma consecutive_hyphens_Cons: "consecutive_hyphens ys \<Longrightarrow> consecutive_hyphens (x # ys)"
  by (cases ys) auto

lemma consecutive_hyphens_appendI2: "consecutive_hyphens ys \<Longrightarrow> consecutive_hyphens (xs @ ys)"
  by (induction xs) (auto intro: consecutive_hyphens_Cons)

lemma no_consecutive_dropWhile:
  assumes "\<not> consecutive_hyphens s"
  shows "\<not> consecutive_hyphens (dropWhile P s)"
proof
  assume "consecutive_hyphens (dropWhile P s)"
  then have "consecutive_hyphens (takeWhile P s @ dropWhile P s)"
    by (rule consecutive_hyphens_appendI2)
  with assms show False by simp
qed

lemma strip_trailing_decomp:
  "strip_trailing_hyphens s @ rev (takeWhile hyphen (rev s)) = s"
proof -
  have "rev (takeWhile hyphen (rev s) @ dropWhile hyphen (rev s)) = s" by simp
  then show ?thesis unfolding strip_trailing_hyphens_def rev_append .
qed

lemma no_consecutive_strip_trailing:
  assumes "\<not> consecutive_hyphens s"
  shows "\<not> consecutive_hyphens (strip_trailing_hyphens s)"
proof
  assume "consecutive_hyphens (strip_trailing_hyphens s)"
  then have "consecutive_hyphens (strip_trailing_hyphens s @ rev (takeWhile hyphen (rev s)))"
    by (rule consecutive_hyphens_appendI1)
  with assms show False by (simp add: strip_trailing_decomp)
qed

lemma no_consecutive_strip:
  "\<not> consecutive_hyphens s \<Longrightarrow> \<not> consecutive_hyphens (strip_hyphens s)"
  by (simp add: strip_hyphens_def no_consecutive_strip_trailing no_consecutive_dropWhile)

lemma set_strip_trailing: "set (strip_trailing_hyphens s) \<subseteq> set s"
  by (auto simp: strip_trailing_hyphens_def dest: set_dropWhileD)

lemma set_strip: "set (strip_hyphens s) \<subseteq> set s"
  using set_strip_trailing [of "dropWhile hyphen s"]
  by (auto simp: strip_hyphens_def dest: set_dropWhileD)

lemma strip_trailing_last:
  "strip_trailing_hyphens s \<noteq> [] \<Longrightarrow> \<not> hyphen (last (strip_trailing_hyphens s))"
  using hd_dropWhile [of hyphen "rev s"]
  by (simp add: strip_trailing_hyphens_def last_rev)

lemma strip_trailing_hd:
  "strip_trailing_hyphens s \<noteq> [] \<Longrightarrow> hd (strip_trailing_hyphens s) = hd s"
  by (metis hd_append2 strip_trailing_decomp)

lemma strip_hd:
  "strip_hyphens s \<noteq> [] \<Longrightarrow> \<not> hyphen (hd (strip_hyphens s))"
proof -
  assume ne: "strip_hyphens s \<noteq> []"
  then have "dropWhile hyphen s \<noteq> []"
    by (auto simp: strip_hyphens_def strip_trailing_hyphens_def simp del: dropWhile_eq_Nil_conv)
  then have "\<not> hyphen (hd (dropWhile hyphen s))" by (rule hd_dropWhile)
  with ne show ?thesis
    by (simp add: strip_hyphens_def strip_trailing_hd)
qed

lemma strip_last:
  "strip_hyphens s \<noteq> [] \<Longrightarrow> \<not> hyphen (last (strip_hyphens s))"
  by (simp add: strip_hyphens_def strip_trailing_last)

lemma strip_nonempty:
  assumes "x \<in> set s" "\<not> hyphen x"
  shows "strip_hyphens s \<noteq> []"
proof -
  from assms have "x \<in> set (dropWhile hyphen s)"
    by (metis (full_types) UnE set_append takeWhile_dropWhile_id set_takeWhileD)
  then have "x \<in> set (rev (dropWhile hyphen s))" by simp
  with assms(2) have "dropWhile hyphen (rev (dropWhile hyphen s)) \<noteq> []"
    by auto
  then show ?thesis by (simp add: strip_hyphens_def strip_trailing_hyphens_def)
qed

lemma sanitizeBranchName_chars: "list_all name_char (sanitizeBranchName b)"
proof -
  define s0 where "s0 = replace_invalid (toLowerCase b)"
  define s1 where "s1 = strip_hyphens (collapse_hyphens s0)"
  have "set s1 \<subseteq> set s0"
    unfolding s1_def using set_strip [of "collapse_hyphens s0"] by (simp add: set_collapse_hyphens)
  moreover have "set (take 30 s1) \<subseteq> set s1" by (rule set_take_subset)
  moreover have "set (strip_trailing_hyphens (take 30 s1)) \<subseteq> set (take 30 s1)"
    by (rule set_strip_trailing)
  ultimately have "set (sanitizeBranchName b) \<subseteq> set s0"
    unfolding sanitizeBranchName_def substring0_def s1_def s0_def by blast
  moreover have "list_all name_char s0"
    by (auto simp: s0_def replace_invalid_def list_all_iff name_char_def hyphen_def)
  ultimately show ?thesis by (auto simp: list_all_iff)
qed

lemma lower_alnum_not_hyphen: "lower_alnum c \<Longrightarrow> \<not> hyphen c"
  by (auto simp: lower_alnum_def hyphen_def)

lemma preview_name_valid:
  assumes base: "list_all name_char (toLowerCase configured)"
    and id: "list_all lower_alnum (toLowerCase nanoid8)" "nanoid8 \<noteq> []"
    and pv: "snd (resolveService opts configured b nanoid8) = ''preview''"
  shows "valid_service_name (fst (resolveService opts configured b nanoid8))
         \<and> \<not> consecutive_hyphens (fst (resolveService opts configured b nanoid8))"
proof -
  define joined where
    "joined = toLowerCase configured @ ''-'' @ sanitizeBranchName b @ ''-'' @ toLowerCase nanoid8"
  define name where "name = strip_hyphens (collapse_hyphens joined)"
  from pv have fst: "fst (resolveService opts configured b nanoid8) = name"
    by (auto simp: resolveService_def Let_def name_def joined_def split: if_splits)
  have chars: "list_all name_char joined"
    using base id(1) sanitizeBranchName_chars [of b]
    by (auto simp: joined_def list_all_iff name_char_def hyphen_def)
  have sub: "set name \<subseteq> set joined"
    unfolding name_def using set_strip set_collapse_hyphens by blast
  from id obtain x where x: "x \<in> set (toLowerCase nanoid8)" "lower_alnum x"
    by (cases nanoid8) (auto simp: toLowerCase_def)
  then have "x \<in> set (collapse_hyphens joined)" "\<not> hyphen x"
    by (auto simp: set_collapse_hyphens joined_def lower_alnum_not_hyphen)
  then have ne: "name \<noteq> []" unfolding name_def by (rule strip_nonempty)
  have all: "list_all name_char name"
    using chars sub by (auto simp: list_all_iff)
  from ne have "hd name \<in> set name" "last name \<in> set name" by simp_all
  with all have "name_char (hd name)" "name_char (last name)" by (auto simp: list_all_iff)
  moreover from ne have "\<not> hyphen (hd name)" "\<not> hyphen (last name)"
    unfolding name_def by (rule strip_hd, rule strip_last)
  ultimately have "lower_alnum (hd name)" "lower_alnum (last name)"
    by (auto simp: name_char_def)
  with ne all have "valid_service_name name" by (simp add: valid_service_name_def)
  moreover have "\<not> consecutive_hyphens name"
    unfolding name_def by (intro no_consecutive_strip no_consecutive_collapse)
  ultimately show ?thesis by (simp add: fst)
qed

text \<open>
  C1: the claim is that every preview name matches \<open>^[a-z0-9]([a-z0-9-]*[a-z0-9])?$\<close>, the
  suffix being eight lower-case alphanumeric characters. The suffix is the lower-cased
  result of \<open>nanoid(8)\<close>, whose alphabet also has \<open>_\<close> and \<open>-\<close>; nothing after it
  replaces an underscore. With the identifier \<open>Ab_cdEfg\<close> the preview name for the
  branch \<open>feature/x\<close> of the service \<open>app\<close> contains an underscore and does not match,
  and a deploy that succeeds records it in the history (lemma \<open>preview_name_valid\<close>
  above shows that the name does match whenever the identifier is alphanumeric and the
  configured name is one that \<open>init\<close> accepts).
\<close>

theorem preview_name_underscore:
  "resolveService (no_options\<lparr>preview := True\<rparr>) ''app'' ''feature/x'' ''Ab_cdEfg''
     = (''app-feature-x-ab_cdefg'', ''preview'')
   \<and> \<not> valid_service_name ''app-feature-x-ab_cdefg''
   \<and> nanoid_result healthy_world = ''Ab_cdEfg''
   \<and> names (history (deployCommand healthy_world
                        (no_options\<lparr>preview := True, options.branch := Some ''feature/x''\<rparr>)))
       = [''app'', ''app-404-page-k3x9q2ab'', ''app-feature-x-ab_cdefg'']"
  by code_simp

text \<open>
  C9, as the claim states it: a production deployment uses exactly the configured name.
  It fails for a configured name with an upper-case letter: \<open>deployCommand\<close> lower-cases
  the configured name before it uses it.
\<close>

theorem production_name_counterexample:
  "fst (resolveService (no_options\<lparr>production := True\<rparr>) ''MyApp'' ''main'' ''abcdefgh'')
     \<noteq> ''MyApp''"
  by code_simp

lemma lower_char_name_char: "name_char c \<Longrightarrow> lower_char c = c"
  by (auto simp: name_char_def lower_alnum_def hyphen_def lower_char_def)

text \<open>
  C9, amended: when production is requested, or no preview is requested and the branch
  is \<open>main\<close>, the deployment is a production deployment and its service name is the
  configured name in lower case, with no other change and no suffix; a configured name
  of characters \<open>[a-z0-9-]\<close> only, as \<open>init\<close> accepts them, is used exactly.
\<close>

theorem production_name:
  assumes "production opts \<or> (\<not> preview opts \<and> b = ''main'')"
  shows "resolveService opts configured b nid = (toLowerCase configured, ''production'')
         \<and> (list_all name_char configured \<longrightarrow>
              fst (resolveService opts configured b nid) = configured)"
proof -
  have "list_all name_char configured \<Longrightarrow> toLowerCase configured = configured"
    by (simp add: toLowerCase_def list_all_iff lower_char_name_char map_idI)
  with assms show ?thesis
    by (auto simp: resolveService_def Let_def)
qed

theorem production_name_witness:
  "(production no_options \<or> (\<not> preview no_options \<and> ''main'' = ''main''))
   \<and> list_all name_char ''my-app''
   \<and> resolveService no_options ''my-app'' ''main'' ''Ab_cdEfg'' = (''my-app'', ''production'')"
proof -
  have h: "production no_options \<or> (\<not> preview no_options \<and> ''main'' = ''main'')"
    by (simp add: no_options_def)
  have c: "list_all name_char ''my-app''"
    by code_simp
  have l: "toLowerCase ''my-app'' = ''my-app''"
    by code_simp
  from production_name [OF h, of "''my-app''" "''Ab_cdEfg''"] h c l
  show ?thesis by simp
qed

section \<open>Properties of the environment loader\<close>

lemma split_on_nonempty: "split_on c s \<noteq> []"
  by (induction s) (auto split: list.splits)

lemma hd_split_on: "hd (split_on c s) = takeWhile (\<lambda>x. x \<noteq> c) s"
  using split_on_nonempty [of c]
  by (induction s) (auto split: list.splits)

lemma join_with_Cons: "ps \<noteq> [] \<Longrightarrow> join_with sep (p # ps) = p @ sep @ join_with sep ps"
  by (cases ps) auto

lemma join_split_on: "join_with [c] (split_on c s) = s"
proof (induction s)
  case Nil
  then show ?case by simp
next
  case (Cons x xs)
  obtain p ps where sp: "split_on c xs = p # ps"
    using split_on_nonempty [of c xs] by (cases "split_on c xs") auto
  with Cons show ?case
    by (cases ps) (auto simp: join_with_Cons)
qed

lemma join_tl_split_on:
  "join_with [c] (tl (split_on c s)) = drop 1 (dropWhile (\<lambda>x. x \<noteq> c) s)"
  using split_on_nonempty [of c]
  by (induction s) (auto simp: join_split_on split: list.splits)

lemma trim_decomp:
  "trim s @ rev (takeWhile whitespace (rev (dropWhile whitespace s))) = dropWhile whitespace s"
proof -
  let ?d = "dropWhile whitespace s"
  have "rev (takeWhile whitespace (rev ?d) @ dropWhile whitespace (rev ?d)) = ?d" by simp
  then show ?thesis unfolding trim_def rev_append .
qed

lemma hd_trim: 
  assumes "trim s \<noteq> []" 
  shows "\<not> whitespace (hd (trim s))"
proof -
  from assms have ne: "dropWhile whitespace s \<noteq> []"
    by (auto simp: trim_def simp del: dropWhile_eq_Nil_conv)
  have "hd (trim s) = hd (dropWhile whitespace s)"
    using assms by (metis hd_append2 trim_decomp)
  with hd_dropWhile [OF ne] show ?thesis by simp
qed

lemma trim_nonempty:
  assumes "s \<noteq> []" "\<not> whitespace (hd s)"
  shows "trim s \<noteq> []"
proof -
  from assms have "dropWhile whitespace s = s" by (cases s) auto
  moreover from assms have "hd s \<in> set (rev s)" by simp
  with assms(2) have "dropWhile whitespace (rev s) \<noteq> []" by auto
  ultimately show ?thesis by (simp add: trim_def)
qed

lemma startsWith_single: "startsWith v [q] \<longleftrightarrow> v \<noteq> [] \<and> hd v = q"
  by (cases v) (auto simp: startsWith_def)

lemma endsWith_single: "endsWith v [q] \<longleftrightarrow> v \<noteq> [] \<and> last v = q"
  by (cases v rule: rev_cases) (auto simp: endsWith_def)

lemma quoted_value:
  "(if (startsWith v [double_quote] \<and> endsWith v [double_quote])
       \<or> (startsWith v [single_quote] \<and> endsWith v [single_quote])
    then slice_1_m1 v else v) = spec_unquote (\<lambda>v. []) v"
proof (cases "2 \<le> length v")
  case True
  then have "v \<noteq> []" by auto
  with True show ?thesis
    by (auto simp: startsWith_single endsWith_single spec_unquote_def slice_1_m1_def)
next
  case False
  then have "v = [] \<or> (\<exists>x. v = [x])"
    by (cases v) (auto simp: not_le Suc_le_eq)
  then show ?thesis
    by (auto simp: startsWith_single endsWith_single spec_unquote_def slice_1_m1_def)
qed

lemma key_nonempty:
  assumes "trim line \<noteq> []"
  shows "takeWhile (\<lambda>c. c \<noteq> CHR ''='') (trim line) \<noteq> []
         \<longleftrightarrow> trim (takeWhile (\<lambda>c. c \<noteq> CHR ''='') (trim line)) \<noteq> []"
proof
  let ?k = "takeWhile (\<lambda>c. c \<noteq> CHR ''='') (trim line)"
  assume k: "?k \<noteq> []"
  then have "hd ?k = hd (trim line)" by (cases "trim line") (auto split: if_splits)
  with hd_trim [OF assms] have "\<not> whitespace (hd ?k)" by simp
  with k show "trim ?k \<noteq> []" by (rule trim_nonempty)
next
  assume "trim (takeWhile (\<lambda>c. c \<noteq> CHR ''='') (trim line)) \<noteq> []"
  then show "takeWhile (\<lambda>c. c \<noteq> CHR ''='') (trim line) \<noteq> []"
    by (auto simp: trim_def)
qed

lemma env_line_spec:
  "env_line envVars line =
     (case spec_entry (\<lambda>v. []) ['''', ''__proto__''] line of
        None \<Rightarrow> envVars
      | Some (k, v) \<Rightarrow> envVars(k \<mapsto> v))"
proof (cases "trim line = [] \<or> hd (trim line) = CHR ''#''")
  case True
  then show ?thesis
    by (auto simp: env_line_def spec_entry_def startsWith_single)
next
  case False
  then have ne: "trim line \<noteq> []" and nc: "\<not> startsWith (trim line) ''#''"
    by (auto simp: startsWith_single)
  note kn = key_nonempty [OF ne]
  from quoted_value [of "spec_value (trim line)"]
  have q: "(if (startsWith (spec_value (trim line)) [double_quote]
                \<and> endsWith (spec_value (trim line)) [double_quote])
             \<or> (startsWith (spec_value (trim line)) [single_quote]
                \<and> endsWith (spec_value (trim line)) [single_quote])
            then slice_1_m1 (spec_value (trim line)) else spec_value (trim line))
           = spec_unquote (\<lambda>v. []) (spec_value (trim line))" .
  have jv: "trim (join_with ''='' (tl (split_on CHR ''='' (trim line)))) = spec_value (trim line)"
    by (simp add: join_tl_split_on spec_value_def)
  show ?thesis
  proof (cases "takeWhile (\<lambda>c. c \<noteq> CHR ''='') (trim line) = []")
    case True
    with kn have "trim (takeWhile (\<lambda>c. c \<noteq> CHR ''='') (trim line)) = []" by simp
    with True False ne nc show ?thesis
      by (simp add: env_line_def spec_entry_def hd_split_on Let_def)
  next
    case k: False
    with kn have tk: "trim (takeWhile (\<lambda>c. c \<noteq> CHR ''='') (trim line)) \<noteq> []" by simp
    from k tk False ne nc show ?thesis
      unfolding env_line_def spec_entry_def Let_def hd_split_on jv q
      by (simp add: assign_def)
  qed
qed

lemma foldl_entries:
  assumes "\<And>m l. l \<in> set ls \<Longrightarrow> step m l = (case entry l of None \<Rightarrow> m | Some (k, v) \<Rightarrow> m(k \<mapsto> v))"
  shows "foldl step m0 ls = m0 ++ map_of (rev (List.map_filter entry ls))"
  using assms
proof (induction ls arbitrary: m0)
  case Nil
  then show ?case by (simp add: List.map_filter_def)
next
  case (Cons l ls)
  have step: "step m0 l = (case entry l of None \<Rightarrow> m0 | Some (k, v) \<Rightarrow> m0(k \<mapsto> v))"
    by (rule Cons.prems) simp
  have "foldl step (step m0 l) ls = step m0 l ++ map_of (rev (List.map_filter entry ls))"
    by (rule Cons.IH) (simp add: Cons.prems)
  then show ?case
    by (cases "entry l") (auto simp: step List.map_filter_def map_add_def split: option.splits)
qed

lemma parseEnvFile_spec:
  "parseEnvFile (Stored envContent)
     = spec_parse (\<lambda>v. []) ['''', ''__proto__''] envContent"
proof -
  have "foldl env_line Map.empty (split_on CHR 0x0A envContent)
        = Map.empty ++ map_of (rev (List.map_filter (spec_entry (\<lambda>v. []) ['''', ''__proto__''])
                                      (split_on CHR 0x0A envContent)))"
    by (intro foldl_entries env_line_spec)
  then show ?thesis by (simp add: parseEnvFile_def spec_parse_def)
qed

text \<open>
  C8, as the claim states it: the lines skipped are those empty after trimming and those
  that start with \<open>#\<close>; every other line is split at its first \<open>=\<close>. It fails for the
  line \<open>=x\<close>: the claim gives the entry with the empty key, the loader skips the line
  because of its guard \<open>if (key)\<close>.
\<close>

theorem parseEnvFile_counterexample:
  "spec_parse (\<lambda>v. v) [] ''=x'' [] = Some ''x'' \<and> parseEnvFile (Stored ''=x'') [] = None"
  by code_simp

text \<open>
  C8, amended: the loader is total, and a missing or unreadable file gives the empty
  mapping. It skips a line that is empty after trimming or then starts with \<open>#\<close>; it
  also gives no entry for a line with nothing before its first \<open>=\<close> and for the key
  \<open>__proto__\<close>. Every other line is split at its first \<open>=\<close>: the key is the trimmed
  text before it, the value the trimmed text after it (further \<open>=\<close> included) without
  one wrapping pair of matching straight quotes, and a value that is one quote
  character alone becomes the empty string; of several lines with one key the last
  wins. This holds of every file, whatever its lines.
\<close>

theorem parseEnvFile_refines:
  "parseEnvFile Missing = Map.empty
   \<and> parseEnvFile (Corrupt m) = Map.empty
   \<and> parseEnvFile (Stored envContent)
       = spec_parse (\<lambda>v. []) ['''', ''__proto__''] envContent"
  by (simp add: parseEnvFile_spec) (simp add: parseEnvFile_def)

theorem parseEnvFile_refines_witness:
  "parseEnvFile (Stored (''A=1'' @ [CHR 0x0A] @ '' B = 'x=y' '' @ [CHR 0x0A, CHR ''C'',
                          CHR ''='', CHR 0x22, CHR 0x0A] @ ''A=2''))
       = spec_parse (\<lambda>v. []) ['''', ''__proto__'']
           (''A=1'' @ [CHR 0x0A] @ '' B = 'x=y' '' @ [CHR 0x0A, CHR ''C'',
                          CHR ''='', CHR 0x22, CHR 0x0A] @ ''A=2'')
   \<and> parseEnvFile (Stored (''A=1'' @ [CHR 0x0A] @ '' B = 'x=y' '' @ [CHR 0x0A, CHR ''C'',
                          CHR ''='', CHR 0x22, CHR 0x0A] @ ''A=2'')) ''A'' = Some ''2''
   \<and> parseEnvFile (Stored (''A=1'' @ [CHR 0x0A] @ '' B = 'x=y' '' @ [CHR 0x0A, CHR ''C'',
                          CHR ''='', CHR 0x22, CHR 0x0A] @ ''A=2'')) ''B'' = Some ''x=y''
   \<and> parseEnvFile (Stored (''A=1'' @ [CHR 0x0A] @ '' B = 'x=y' '' @ [CHR 0x0A, CHR ''C'',
                          CHR ''='', CHR 0x22, CHR 0x0A] @ ''A=2'')) ''C'' = Some []"
proof -
  let ?f = "''A=1'' @ [CHR 0x0A] @ '' B = 'x=y' '' @ [CHR 0x0A, CHR ''C'',
              CHR ''='', CHR 0x22, CHR 0x0A] @ ''A=2''"
  have a: "spec_parse (\<lambda>v. []) ['''', ''__proto__''] ?f ''A'' = Some ''2''"
    by code_simp
  have b: "spec_parse (\<lambda>v. []) ['''', ''__proto__''] ?f ''B'' = Some ''x=y''"
    by code_simp
  have c: "spec_parse (\<lambda>v. []) ['''', ''__proto__''] ?f ''C'' = Some []"
    by code_simp
  from parseEnvFile_refines [of "''EACCES''" ?f]
  have r: "parseEnvFile (Stored ?f) = spec_parse (\<lambda>v. []) ['''', ''__proto__''] ?f"
    by blast
  from r a b c show ?thesis by simp
qed

section \<open>Properties of the commands\<close>

lemma preflight_fails:
  assumes "isl (exec w DockerInfo) \<or> isl (exec w GcloudAuthList)"
  shows "snd (preflight w config) \<noteq> None
         \<and> set (fst (preflight w config)) \<subseteq> {DockerInfo, GcloudAuthList}"
  using assms by (auto simp: preflight_def split: sum.splits)

text \<open>
  When \<open>docker info\<close> or \<open>gcloud auth list\<close> fails, a deploy makes no call besides asking
  git for the branch and the two checks themselves, so no build, tag, push or deploy
  call, and it leaves the deployment history as it was.
\<close>

lemma failed_check_aborts:
  assumes "isl (exec w DockerInfo) \<or> isl (exec w GcloudAuthList)"
  shows "history (deployCommand w opts) = history_file w
         \<and> set (calls (deployCommand w opts)) \<subseteq> {GitRevParse, DockerInfo, GcloudAuthList}"
proof (cases "isProjectInitialized (config_file w)")
  case False
  then show ?thesis by (simp add: deployCommand_def not_initialized_def)
next
  case True
  show ?thesis
  proof (cases "readProjectConfig (config_file w)")
    case (Inl e)
    with True show ?thesis by (simp add: deployCommand_def throws_def)
  next
    case (Inr c)
    show ?thesis
    proof (cases c)
      case None
      with True Inr show ?thesis by (simp add: deployCommand_def throws_def)
    next
      case (Some config)
      show ?thesis
      proof (cases "config.serviceName config")
        case n: None
        with True Inr Some show ?thesis by (simp add: deployCommand_def throws_def)
      next
        case (Some configured)
        from preflight_fails [OF assms, of config]
        obtain lines where l: "snd (preflight w config) = Some lines"
          and s: "set (fst (preflight w config)) \<subseteq> {DockerInfo, GcloudAuthList}"
          by auto
        with True Inr \<open>c = Some config\<close> Some show ?thesis
          by (auto simp: deployCommand_def Let_def)
      qed
    qed
  qed
qed

lemma docker_down_aborts:
  "history (deployCommand docker_down no_options) = history_file docker_down
   \<and> calls (deployCommand docker_down no_options) = [GitRevParse, DockerInfo]
   \<and> printed (deployCommand docker_down no_options)
       = [''Pre-flight checks failed'', ''Error: Docker is not running.'',
          ''Please start Docker and try again.'']"
proof -
  have h: "isl (exec docker_down DockerInfo) \<or> isl (exec docker_down GcloudAuthList)"
    by (simp add: docker_down_def command_failed_def)
  have c: "calls (deployCommand docker_down no_options) = [GitRevParse, DockerInfo]"
    by (simp add: deployCommand_def docker_down_def healthy_world_def no_options_def
        isProjectInitialized_def readProjectConfig_def preflight_def command_failed_def
        sample_config_def)
  have p: "printed (deployCommand docker_down no_options)
       = [''Pre-flight checks failed'', ''Error: Docker is not running.'',
          ''Please start Docker and try again.'']"
    by code_simp
  from failed_check_aborts [OF h, of no_options] h c p show ?thesis by blast
qed

text \<open>
  The check of the platform CLI passes whenever \<open>gcloud auth list\<close> exits with status 0,
  whatever it prints: with a configuration that names the service, a running Docker and
  a successful \<open>configure-docker\<close>, the build is called.
\<close>

lemma build_called_whatever_auth_prints:
  assumes "config_file w = Stored (Some config)" "config.serviceName config = Some configured"
    and "exec w DockerInfo = Inr info" "exec w GcloudAuthList = Inr accounts"
    and "exec w (GcloudConfigureDocker (shown (config.region config))) = Inr out"
  shows "\<exists>imageTag. DockerBuild imageTag \<in> set (calls (deployCommand w opts))"
proof -
  have p: "snd (preflight w config) = None"
    using assms by (simp add: preflight_def)
  have b: "DockerBuild (shown (artifactRegistry config) @ ''/'' @ name @ '':'' @ date_now w)
             \<in> set (calls (deploy_image w config name deploymentType branchName))"
    for name deploymentType branchName
    by (simp add: deploy_image_def Let_def split: sum.splits)
  from assms(1,2) p
  have "set (calls (deploy_image w config
                 (fst (resolveService opts configured
                        (branchNameOf opts
                          (case exec w GitRevParse of Inl e \<Rightarrow> None | Inr out \<Rightarrow> Some out))
                        (nanoid_result w)))
                 (snd (resolveService opts configured
                        (branchNameOf opts
                          (case exec w GitRevParse of Inl e \<Rightarrow> None | Inr out \<Rightarrow> Some out))
                        (nanoid_result w)))
                 (branchNameOf opts
                   (case exec w GitRevParse of Inl e \<Rightarrow> None | Inr out \<Rightarrow> Some out))))
          \<subseteq> set (calls (deployCommand w opts))"
    by (auto simp: deployCommand_def Let_def isProjectInitialized_def readProjectConfig_def)
  with b show ?thesis by blast
qed

text \<open>
  C7: the claim is that a deploy whose pre-flight check fails, the container engine not
  running or the platform CLI not authenticated, makes no build, push or deploy call
  and leaves the history unchanged. This holds when Docker is not running and when
  \<open>gcloud auth list\<close> itself fails. But \<open>checkGcloudAuth\<close> of the client does not look at
  what the command prints, as the check of \<open>init\<close> does (\<open>output.length > 0\<close>): when no
  account is active the command succeeds and prints nothing, the check passes, and the
  deploy builds, tags, pushes and deploys, and appends a record to the history.
\<close>

theorem unauthenticated_deploy_runs:
  "exec not_authenticated GcloudAuthList = Inr []
   \<and> calls (deployCommand not_authenticated no_options)
       = [GitRevParse, DockerInfo, GcloudAuthList, GcloudConfigureDocker ''us-central1'',
          DockerBuild ''us-central1-docker.pkg.dev/my-project/cloud-run-source-deploy/app:1700000000000'',
          DockerTag ''us-central1-docker.pkg.dev/my-project/cloud-run-source-deploy/app:1700000000000''
            ''us-central1-docker.pkg.dev/my-project/cloud-run-source-deploy/app:latest'',
          DockerPush ''us-central1-docker.pkg.dev/my-project/cloud-run-source-deploy/app:1700000000000'',
          DockerPush ''us-central1-docker.pkg.dev/my-project/cloud-run-source-deploy/app:latest'',
          GcloudRunDeploy ''app''
            ''us-central1-docker.pkg.dev/my-project/cloud-run-source-deploy/app:1700000000000''
            ''us-central1'' ''my-project'' Map.empty,
          GcloudDescribe ''app'' ''us-central1'' ''my-project'']
   \<and> map pipeline_step (calls (deployCommand not_authenticated no_options))
       = [False, False, False, False, True, True, True, True, True, False]
   \<and> names (history_file not_authenticated) = [''app'', ''app-404-page-k3x9q2ab'']
   \<and> names (history (deployCommand not_authenticated no_options))
       = [''app'', ''app-404-page-k3x9q2ab'', ''app'']
   \<and> printed (deployCommand not_authenticated no_options)
       = [''Deployment successful!'', ''https://app-uc.a.run.app'']"
proof -
  have t: "trim [CHR ''m'', CHR ''a'', CHR ''i'', CHR ''n'', CHR 0x0A] = ''main''"
    by code_simp
  have l: "toLowerCase ''app'' = ''app''"
    by code_simp
  have e: "exec not_authenticated GcloudAuthList = Inr []"
    by (simp add: not_authenticated_def)
  have c: "calls (deployCommand not_authenticated no_options)
       = [GitRevParse, DockerInfo, GcloudAuthList, GcloudConfigureDocker ''us-central1'',
          DockerBuild ''us-central1-docker.pkg.dev/my-project/cloud-run-source-deploy/app:1700000000000'',
          DockerTag ''us-central1-docker.pkg.dev/my-project/cloud-run-source-deploy/app:1700000000000''
            ''us-central1-docker.pkg.dev/my-project/cloud-run-source-deploy/app:latest'',
          DockerPush ''us-central1-docker.pkg.dev/my-project/cloud-run-source-deploy/app:1700000000000'',
          DockerPush ''us-central1-docker.pkg.dev/my-project/cloud-run-source-deploy/app:latest'',
          GcloudRunDeploy ''app''
            ''us-central1-docker.pkg.dev/my-project/cloud-run-source-deploy/app:1700000000000''
            ''us-central1'' ''my-project'' Map.empty,
          GcloudDescribe ''app'' ''us-central1'' ''my-project'']"
    by (simp add: deployCommand_def deploy_image_def preflight_def not_authenticated_def
        healthy_world_def healthy_exec_def sample_config_def no_options_def
        isProjectInitialized_def readProjectConfig_def shown_def parseEnvFile_def
        branchNameOf_def getCurrentBranch_def resolveService_def Let_def failure_lines_def
        t l)
  have m: "map pipeline_step (calls (deployCommand not_authenticated no_options))
       = [False, False, False, False, True, True, True, True, True, False]"
    unfolding c by simp
  have n: "names (history_file not_authenticated) = [''app'', ''app-404-page-k3x9q2ab'']"
    by code_simp
  have h: "names (history (deployCommand not_authenticated no_options))
       = [''app'', ''app-404-page-k3x9q2ab'', ''app'']"
    by code_simp
  have p: "printed (deployCommand not_authenticated no_options)
       = [''Deployment successful!'', ''https://app-uc.a.run.app'']"
    by code_simp
  from e c m n h p show ?thesis by simp
qed

text \<open>
  An error that leaves a handler ends the process with status 1: the action wrappers of
  \<open>index.js\<close> see to it, here for a project configuration that cannot be parsed.
\<close>

lemma thrown_error_exits_one:
  assumes "config_file w = Corrupt m"
  shows "exit_status (deployCommand w opts) = 1"
    and "exit_status (listCommand w opts) = 1"
    and "exit_status (logsCommand w opts) = 1"
    and "name \<noteq> [] \<Longrightarrow> exit_status (removeCommand w name opts) = 1"
  using assms
  by (simp_all add: exit_status_def deployCommand_def listCommand_def logsCommand_def
      removeCommand_def throws_def isProjectInitialized_def readProjectConfig_def)

text \<open>
  So does the TypeError raised outside a \<open>try\<close> on a file of the wrong shape: a
  configuration that is \<open>null\<close> or names no service, for a deploy; a history without
  \<open>deployments\<close>, for a removal and for the logs.
\<close>

lemma wrong_shape_exits_one:
  shows "config_file w = Stored None \<Longrightarrow> exit_status (deployCommand w opts) = 1"
    and "config_file w = Stored (Some c) \<Longrightarrow> config.serviceName c = None
         \<Longrightarrow> exit_status (deployCommand w opts) = 1"
    and "config_file w = Stored (Some c) \<Longrightarrow> history_without_array w \<Longrightarrow> name \<noteq> []
         \<Longrightarrow> exit_status (removeCommand w name opts) = 1"
    and "config_file w = Stored (Some c) \<Longrightarrow> history_without_array w
         \<Longrightarrow> exit_status (logsCommand w opts) = 1"
  by (simp_all add: exit_status_def deployCommand_def logsCommand_def removeCommand_def
      throws_def isProjectInitialized_def readProjectConfig_def Let_def)

text \<open>
  C4: the claim is that a command in which a step fails without recovery exits with a
  non-zero status. The action wrappers of \<open>index.js\<close> exit with status 1 for an error
  that leaves the handler, but the handlers let no such failure out: they report it and
  return, or catch it and print it. The process ends with status 0 when Docker is not
  running (the lines printed are shown), when the build, the push or the deploy fails,
  when the remote listing fails, when the log query fails and when the deletion is
  refused.
\<close>

theorem failed_steps_exit_zero:
  "printed (deployCommand docker_down no_options)
     = [''Pre-flight checks failed'', ''Error: Docker is not running.'',
        ''Please start Docker and try again.'']
   \<and> exit_status (deployCommand docker_down no_options) = 0
   \<and> exit_status (deployCommand build_fails no_options) = 0
   \<and> exit_status (deployCommand push_fails no_options) = 0
   \<and> exit_status (deployCommand deploy_fails no_options) = 0
   \<and> exit_status (listCommand listing_fails no_options) = 0
   \<and> exit_status (logsCommand logs_fail no_options) = 0
   \<and> exit_status (removeCommand delete_denied ''app'' yes_options) = 0"
  by code_simp

text \<open>
  What \<open>removeCommand\<close> does to the history once the user has agreed: a service that the
  lookup reports as not found (code 5) has its record removed; after an error of the
  deletion the text of the message alone decides.
\<close>

lemma removeCommand_absent_before:
  assumes "config_file w = Stored (Some config)" "\<not> history_without_array w"
    and "n \<noteq> []" "yes opts \<or> confirmed w"
    and "rpc w (GetService n) = Some e" "rpc_code e = 5"
  shows "history (removeCommand w n opts) = removeDeployment (can_write w) n (history_file w)
         \<and> outcome (removeCommand w n opts) = Returned"
  using assms
  by (auto simp: removeCommand_def Let_def isProjectInitialized_def readProjectConfig_def)

lemma removeCommand_delete_error:
  assumes "config_file w = Stored (Some config)" "\<not> history_without_array w"
    and "n \<noteq> []" "yes opts \<or> confirmed w"
    and "rpc w (GetService n) = None" "rpc w (DeleteService n) = Some e"
  shows "history (removeCommand w n opts)
           = (if \<not> includes_str (''Failed to delete service: '' @ rpc_message e) ''403''
                 \<and> includes_str (''Failed to delete service: '' @ rpc_message e) ''404''
              then removeDeployment (can_write w) n (history_file w)
              else history_file w)"
  using assms
  by (auto simp: removeCommand_def Let_def isProjectInitialized_def readProjectConfig_def
      remove_failure_def)

text \<open>
  C6: the claim is that the history record is removed when the service is reported as
  not found, before or during the deletion, and that the history is untouched when the
  deletion fails for another reason. After a failed deletion \<open>removeCommand\<close> looks for
  the text \<open>404\<close> in the message and not at the status code, as \<open>getService\<close> does. A
  deletion refused for lack of permission, with a message that names the service
  \<open>app-404-page-k3x9q2ab\<close>, removes the record of that service; a deletion answered with
  NOT_FOUND (code 5), whose message has no \<open>404\<close>, keeps it.
\<close>

theorem remove_history_by_message:
  "names (history_file delete_denied) = [''app'', ''app-404-page-k3x9q2ab'']
   \<and> rpc delete_denied (DeleteService ''app-404-page-k3x9q2ab'')
       = Some (RpcError 7 ''7 PERMISSION_DENIED: Permission denied on resource app-404-page-k3x9q2ab'')
   \<and> names (history (removeCommand delete_denied ''app-404-page-k3x9q2ab'' yes_options))
       = [''app'']
   \<and> rpc deleted_meanwhile (DeleteService ''app-404-page-k3x9q2ab'')
       = Some (RpcError 5 ''5 NOT_FOUND: Service not found'')
   \<and> names (history (removeCommand deleted_meanwhile ''app-404-page-k3x9q2ab'' yes_options))
       = [''app'', ''app-404-page-k3x9q2ab'']"
  by code_simp

section \<open>Properties of the log stream\<close>

text \<open>
  The bound of a query is the time stamp of the last entry delivered, and the query asks
  for entries at or after it: when the next answer still holds that entry, it is
  delivered again.
\<close>

lemma poll_delivers_last_again:
  assumes "getEntries (lastTimestamp st) = Inr es" "es \<noteq> []"
    and "getEntries' (entry_timestamp (last es)) = Inr es'" "last es \<in> set es'"
  shows "delivered (poll (poll st getEntries) getEntries') = delivered st @ es @ es'
         \<and> \<not> distinct (delivered (poll (poll st getEntries) getEntries'))"
proof -
  from assms have "es' \<noteq> []" by auto
  with assms have d: "delivered (poll (poll st getEntries) getEntries') = delivered st @ es @ es'"
    by (simp add: poll_def)
  from assms(2) have "last es \<in> set es" by simp
  with assms(4) have "\<not> distinct (es @ es')" by auto
  with d show ?thesis by auto
qed

text \<open>
  C5: the claim is that the follower polls every two seconds from the time stamp of the
  last entry seen and moves that mark strictly forward, so that no entry reaches the
  callback twice. The interval is 2000 ms and the bound is the last time stamp, but the
  filter is \<open>timestamp>=\<close>: with one entry in the log, stamped after the start, two polls
  deliver it twice and the mark stays where the first poll put it.
\<close>

theorem follow_delivers_twice:
  "pollInterval = 2000
   \<and> delivered (follow_logs 0 [entries_since [started_entry], entries_since [started_entry]])
       = [started_entry, started_entry]
   \<and> lastTimestamp (follow_logs 0 [entries_since [started_entry]]) = 5000
   \<and> lastTimestamp (follow_logs 0 [entries_since [started_entry], entries_since [started_entry]])
       = 5000"
  by code_simp

end
